theory Spec2Isabelle
  imports Complex_Main "HOL-Library.AList"
begin

section \<open>Budget alert evaluation: a model of the Python sources\<close>

text \<open>
  The development follows three source files:
  \<^verbatim>\<open>src/analyzers/budget_alerts.py\<close> (the in-memory budget registry and
  \<^verbatim>\<open>check_budgets\<close>), \<^verbatim>\<open>src/utils/db.py\<close> (the cost table, the budget table
  and the alert table) and \<^verbatim>\<open>src/utils/notification.py\<close> together with
  \<^verbatim>\<open>src/scripts/check_budgets.py\<close> (the dispatch cycle).

  Conventions of the model.
  \<^item> Money is \<^typ>\<open>rat\<close>: sums and comparisons are exact. The sources use binary
    floating point; rounding is not modelled.
  \<^item> A raised exception is a value \<open>Inl e\<close>; a \<^verbatim>\<open>continue\<close> of the budget loop is
    \<open>Inr None\<close>.
  \<^item> Calendar dates are compared chronologically. The sources compare the text
    \<^verbatim>\<open>YYYY-MM-DD\<close> inside SQLite, which is the same order for four-digit years.
\<close>

subsection \<open>Exceptions\<close>

datatype error =
    ValueError          \<comment> \<open>\<^verbatim>\<open>datetime.date\<close> called with a day, month or year out of range\<close>
  | KeyError string     \<comment> \<open>a data frame indexed by a column it does not have\<close>
  | DatabaseError string \<comment> \<open>an SQL query naming a column the table does not have\<close>

subsection \<open>Dates\<close>

record date =
  year :: int
  month :: int
  day :: int

record datetime = date +
  hour :: int
  minute :: int
  second :: int
  microsecond :: int

definition is_leap :: "int \<Rightarrow> bool" where
  "is_leap y = (y mod 4 = 0 \<and> (y mod 100 \<noteq> 0 \<or> y mod 400 = 0))"

definition days_in_month :: "int \<Rightarrow> int \<Rightarrow> int" where
  "days_in_month y m =
     (if m = 2 then (if is_leap y then 29 else 28)
      else if m = 4 \<or> m = 6 \<or> m = 9 \<or> m = 11 then 30
      else 31)"

text \<open>The dates Python can represent: years 1 to 9999, a month, a day of that month.\<close>

definition valid_date :: "'a date_scheme \<Rightarrow> bool" where
  "valid_date d =
     (1 \<le> year d \<and> year d \<le> 9999 \<and> 1 \<le> month d \<and> month d \<le> 12 \<and>
      1 \<le> day d \<and> day d \<le> days_in_month (year d) (month d))"

text \<open>\<^verbatim>\<open>datetime.date(y, m, d)\<close>: raises ValueError outside the calendar.\<close>

definition datetime_date :: "int \<Rightarrow> int \<Rightarrow> int \<Rightarrow> error + date" where
  "datetime_date y m d =
     (if 1 \<le> y \<and> y \<le> 9999 \<and> 1 \<le> m \<and> m \<le> 12 \<and> 1 \<le> d \<and> d \<le> days_in_month y m
      then Inr \<lparr>year = y, month = m, day = d\<rparr>
      else Inl ValueError)"

text \<open>\<^verbatim>\<open>now.date()\<close>: the calendar part of a timestamp.\<close>

definition date_of :: "datetime \<Rightarrow> date" where
  "date_of now = \<lparr>year = year now, month = month now, day = day now\<rparr>"

definition date_le :: "date \<Rightarrow> date \<Rightarrow> bool" where
  "date_le a b =
     (year a < year b \<or>
      (year a = year b \<and> (month a < month b \<or> (month a = month b \<and> day a \<le> day b))))"

subsection \<open>The budget registry of \<^verbatim>\<open>BudgetAlert\<close>\<close>

text \<open>
  One entry of \<^verbatim>\<open>self.budgets\<close>. The optional filters are \<open>None\<close> or a string; Python
  tests them by truthiness, so the empty string counts as absent.
\<close>

record budget =
  amount :: rat
  period :: string
  provider :: "string option"
  service :: "string option"
  last_alert :: "datetime option"

definition truthy :: "string option \<Rightarrow> bool" where
  "truthy s = (case s of None \<Rightarrow> False | Some v \<Rightarrow> v \<noteq> [])"

text \<open>
  \<^verbatim>\<open>self.budgets\<close> is a Python dict: keys are unique, iteration is in insertion order,
  and assigning to an existing key keeps its position. That is \<^const>\<open>AList.update\<close>
  on an association list.
\<close>

type_synonym registry = "(string \<times> budget) list"

definition add_budget ::
  "string \<Rightarrow> rat \<Rightarrow> string \<Rightarrow> string option \<Rightarrow> string option \<Rightarrow> registry \<Rightarrow> registry" where
  "add_budget name amt per prov serv budgets =
     AList.update name
       \<lparr>amount = amt, period = per, provider = prov, service = serv, last_alert = None\<rparr>
       budgets"

subsection \<open>The evaluation window\<close>

text \<open>
  Lines 59 to 69 of \<^verbatim>\<open>check_budgets\<close>: the start of the window by period, \<open>Inr None\<close>
  for the \<^verbatim>\<open>continue\<close> of the last branch, and the end of the window.
\<close>

definition start_date :: "datetime \<Rightarrow> string \<Rightarrow> error + date option" where
  "start_date now per =
     (if per = ''monthly'' then map_sum id Some (datetime_date (year now) (month now) 1)
      else if per = ''quarterly'' then
        (let quarter_month = ((month now - 1) div 3) * 3 + 1
         in map_sum id Some (datetime_date (year now) quarter_month 1))
      else if per = ''yearly'' then map_sum id Some (datetime_date (year now) 1 1)
      else Inr None)"

definition window :: "datetime \<Rightarrow> string \<Rightarrow> error + (date \<times> date) option" where
  "window now per =
     (case start_date now per of
        Inl e \<Rightarrow> Inl e
      | Inr None \<Rightarrow> Inr None
      | Inr (Some s) \<Rightarrow> Inr (Some (s, date_of now)))"

subsection \<open>Cost records and data frames\<close>

text \<open>
  A row of the table \<^verbatim>\<open>cost_data\<close>. A frame is the result of \<^verbatim>\<open>SELECT *\<close>: the
  names of the table's columns and its rows. The model \<^verbatim>\<open>CostData\<close> calls the value
  column \<^verbatim>\<open>cost\<close>; \<^verbatim>\<open>store_cost_data\<close> appends whatever frame a collector built, so
  \<^verbatim>\<open>check_budgets\<close> also accepts a column \<^verbatim>\<open>amount\<close>. A field of a row is read only
  when \<open>columns\<close> names it.
\<close>

record cost_row =
  row_id :: nat
  row_date :: date
  row_service :: string
  row_cost :: rat
  row_currency :: string
  row_provider :: string
  row_amount :: rat

record frame =
  columns :: "string list"
  rows :: "cost_row list"

text \<open>\<^verbatim>\<open>DataFrame.empty\<close>: some axis has length zero.\<close>

definition df_empty :: "frame \<Rightarrow> bool" where
  "df_empty df = (rows df = [] \<or> columns df = [])"

text \<open>
  \<^verbatim>\<open>get_cost_data\<close> of \<^verbatim>\<open>db.py\<close>. An argument is \<open>None\<close> when it is not given; a
  condition is added to the query only for a truthy argument, and SQLite rejects a
  condition on a column the table lacks.
\<close>

definition get_cost_data ::
  "frame \<Rightarrow> date option \<Rightarrow> date option \<Rightarrow> string option \<Rightarrow> error + frame" where
  "get_cost_data tbl start_d end_d prov =
     (if (start_d \<noteq> None \<or> end_d \<noteq> None) \<and> ''date'' \<notin> set (columns tbl)
        then Inl (DatabaseError ''date'')
      else if truthy prov \<and> ''provider'' \<notin> set (columns tbl)
        then Inl (DatabaseError ''provider'')
      else Inr (tbl\<lparr>rows :=
             filter (\<lambda>r.
               (case start_d of None \<Rightarrow> True | Some s \<Rightarrow> date_le s (row_date r)) \<and>
               (case end_d of None \<Rightarrow> True | Some e \<Rightarrow> date_le (row_date r) e) \<and>
               (truthy prov \<longrightarrow> Some (row_provider r) = prov))
             (rows tbl)\<rparr>))"

text \<open>\<^verbatim>\<open>cost_data[cost_data['service'] == s]\<close>.\<close>

definition filter_service :: "frame \<Rightarrow> string \<Rightarrow> error + frame" where
  "filter_service df s =
     (if ''service'' \<in> set (columns df)
      then Inr (df\<lparr>rows := filter (\<lambda>r. row_service r = s) (rows df)\<rparr>)
      else Inl (KeyError ''service''))"

text \<open>\<^verbatim>\<open>'cost' if 'cost' in cost_data.columns else 'amount'\<close>.\<close>

definition cost_column :: "frame \<Rightarrow> string" where
  "cost_column df = (if ''cost'' \<in> set (columns df) then ''cost'' else ''amount'')"

text \<open>
  \<^verbatim>\<open>cost_data[c].sum()\<close> for the two value columns; the sum of no rows is 0.
\<close>

definition column_sum :: "frame \<Rightarrow> string \<Rightarrow> error + rat" where
  "column_sum df c =
     (if c \<notin> set (columns df) then Inl (KeyError c)
      else if c = ''cost'' then Inr (sum_list (map row_cost (rows df)))
      else if c = ''amount'' then Inr (sum_list (map row_amount (rows df)))
      else Inl (KeyError c))"

subsection \<open>\<^verbatim>\<open>check_budgets\<close>\<close>

text \<open>
  The percentage is a float. The total is a NumPy scalar, so dividing by a zero budget
  gives infinity (with a warning) and not an exception; HOL's \<open>x / 0 = 0\<close> would hide
  that, so the value has its own constructor. The function is called only when the total
  exceeds the amount.
\<close>

datatype percent = Percent rat | PosInf

definition percentage_over :: "rat \<Rightarrow> rat \<Rightarrow> percent" where
  "percentage_over tc amt =
     (if amt = 0 then PosInf else Percent ((tc - amt) / amt * 100))"

record alert =
  alert_name :: string
  alert_budget :: rat
  alert_actual :: rat
  alert_percentage :: percent
  alert_period :: string
  alert_provider :: string
  alert_service :: string
  alert_date :: date

text \<open>\<^verbatim>\<open>x or 'All'\<close>.\<close>

definition or_All :: "string option \<Rightarrow> string" where
  "or_All s = (if truthy s then the s else ''All'')"

text \<open>
  Lines 59 to 87: the spend of one budget. \<open>Inr None\<close> is one of the two
  \<^verbatim>\<open>continue\<close> statements (unknown period, empty query result).
\<close>

definition total_cost :: "datetime \<Rightarrow> frame \<Rightarrow> budget \<Rightarrow> error + rat option" where
  "total_cost now tbl b =
     (case window now (period b) of
        Inl e \<Rightarrow> Inl e
      | Inr None \<Rightarrow> Inr None
      | Inr (Some (start_d, end_d)) \<Rightarrow>
          (case get_cost_data tbl (Some start_d) (Some end_d) (provider b) of
             Inl e \<Rightarrow> Inl e
           | Inr cost_data \<Rightarrow>
               if df_empty cost_data then Inr None
               else
                 (case (if truthy (service b)
                        then filter_service cost_data (the (service b))
                        else Inr cost_data) of
                    Inl e \<Rightarrow> Inl e
                  | Inr cost_data' \<Rightarrow>
                      map_sum id Some (column_sum cost_data' (cost_column cost_data')))))"

text \<open>Lines 89 to 109: the threshold test, the alert and the update of the entry.\<close>

definition check_budget ::
  "datetime \<Rightarrow> frame \<Rightarrow> string \<Rightarrow> budget \<Rightarrow> error + (alert option \<times> budget)" where
  "check_budget now tbl name b =
     (case total_cost now tbl b of
        Inl e \<Rightarrow> Inl e
      | Inr None \<Rightarrow> Inr (None, b)
      | Inr (Some tc) \<Rightarrow>
          if tc > amount b then
            Inr (Some \<lparr>alert_name = name, alert_budget = amount b, alert_actual = tc,
                       alert_percentage = percentage_over tc (amount b),
                       alert_period = period b,
                       alert_provider = or_All (provider b),
                       alert_service = or_All (service b),
                       alert_date = date_of now\<rparr>,
                 b\<lparr>last_alert := Some now\<rparr>)
          else Inr (None, b))"

text \<open>
  The loop over \<^verbatim>\<open>self.budgets.items()\<close>. The result is the list of alerts and the
  registry after the updates of \<^verbatim>\<open>last_alert\<close>; an exception ends the loop.
\<close>

fun check_budgets_loop :: "datetime \<Rightarrow> frame \<Rightarrow> registry \<Rightarrow> error + (alert list \<times> registry)" where
  "check_budgets_loop now tbl [] = Inr ([], [])"
| "check_budgets_loop now tbl ((name, b) # rest) =
     (case check_budget now tbl name b of
        Inl e \<Rightarrow> Inl e
      | Inr (a, b') \<Rightarrow>
          (case check_budgets_loop now tbl rest of
             Inl e \<Rightarrow> Inl e
           | Inr (alerts, rest') \<Rightarrow>
               Inr ((case a of None \<Rightarrow> [] | Some x \<Rightarrow> [x]) @ alerts, (name, b') # rest')))"

definition check_budgets :: "datetime \<Rightarrow> frame \<Rightarrow> registry \<Rightarrow> error + (alert list \<times> registry)" where
  "check_budgets now tbl budgets = check_budgets_loop now tbl budgets"

subsection \<open>The budget table and the alert table of \<^verbatim>\<open>db.py\<close>\<close>

record budget_row =
  b_id :: nat
  b_name :: string
  b_amount :: rat
  b_period :: string
  b_provider :: "string option"
  b_service :: "string option"
  b_created_at :: datetime

record alert_row =
  ba_id :: nat
  ba_budget_id :: nat
  ba_actual_cost :: rat
  ba_percentage :: percent
  ba_alert_date :: datetime
  ba_notified :: bool

text \<open>
  The primary key of a new row: SQLite gives an integer primary key one more than the
  largest key of the table, and 1 in an empty table.
\<close>

definition next_id :: "alert_row list \<Rightarrow> nat" where
  "next_id tbl = Suc (foldr max (map ba_id tbl) 0)"

text \<open>
  \<^verbatim>\<open>store_budget_alert\<close>: the new row takes the column defaults, \<^verbatim>\<open>notified = False\<close> and
  the current time. The result is the new key and the table.
\<close>

definition store_budget_alert ::
  "datetime \<Rightarrow> nat \<Rightarrow> rat \<Rightarrow> percent \<Rightarrow> alert_row list \<Rightarrow> nat \<times> alert_row list" where
  "store_budget_alert now budget_id actual_cost pct tbl =
     (let alert_id = next_id tbl
      in (alert_id,
          tbl @ [\<lparr>ba_id = alert_id, ba_budget_id = budget_id, ba_actual_cost = actual_cost,
                  ba_percentage = pct, ba_alert_date = now, ba_notified = False\<rparr>]))"

definition get_budget_alerts :: "nat option \<Rightarrow> bool option \<Rightarrow> alert_row list \<Rightarrow> alert_row list" where
  "get_budget_alerts budget_id notified tbl =
     filter (\<lambda>r.
       (case budget_id of None \<Rightarrow> True | Some i \<Rightarrow> ba_budget_id r = i) \<and>
       (case notified of None \<Rightarrow> True | Some n \<Rightarrow> ba_notified r = n)) tbl"

text \<open>
  \<^verbatim>\<open>mark_alert_notified\<close>: \<^verbatim>\<open>.first()\<close> is the first row with the key, or nothing; only
  a row that was found is written.
\<close>

fun mark_alert_notified :: "nat \<Rightarrow> alert_row list \<Rightarrow> alert_row list" where
  "mark_alert_notified alert_id [] = []"
| "mark_alert_notified alert_id (r # rs) =
     (if ba_id r = alert_id then r\<lparr>ba_notified := True\<rparr> # rs
      else r # mark_alert_notified alert_id rs)"

text \<open>The operations on the alert table, for sequences of calls.\<close>

datatype ledger_op =
    Store datetime nat rat percent
  | Mark nat
  | Query "nat option" "bool option"

fun apply_op :: "alert_row list \<Rightarrow> ledger_op \<Rightarrow> alert_row list" where
  "apply_op tbl (Store now budget_id actual_cost pct) =
     snd (store_budget_alert now budget_id actual_cost pct tbl)"
| "apply_op tbl (Mark alert_id) = mark_alert_notified alert_id tbl"
| "apply_op tbl (Query budget_id notified) = tbl"

subsection \<open>Notification channels of \<^verbatim>\<open>notification.py\<close>\<close>

text \<open>
  The settings the two channels read from \<^verbatim>\<open>config.py\<close>. The SMTP host, port and
  credentials only matter inside the exchange, whose result is a parameter here.
\<close>

record config =
  ENABLE_EMAIL :: bool
  EMAIL_SENDER :: string
  EMAIL_RECIPIENTS :: "string list"
  ENABLE_SLACK :: bool
  SLACK_WEBHOOK_URL :: string

text \<open>
  What the network does when a channel is tried: the SMTP exchange completes or raises,
  the HTTP request returns a status code or raises. Every exchange that was started is
  an event of the log; the message is kept abstract.
\<close>

datatype smtp_outcome = Sent | SmtpError
datatype http_outcome = Status int | RequestError
datatype 'm io_event = SmtpSend "string list" 'm | HttpPost string 'm

definition send_email ::
  "config \<Rightarrow> smtp_outcome \<Rightarrow> 'm \<Rightarrow> string list option \<Rightarrow> bool \<times> 'm io_event list" where
  "send_email cfg outcome msg recipients =
     (if \<not> ENABLE_EMAIL cfg \<or> EMAIL_SENDER cfg = [] then (False, [])
      else
        (let recipients' =
               (case recipients of
                  None \<Rightarrow> EMAIL_RECIPIENTS cfg
                | Some rs \<Rightarrow> if rs = [] then EMAIL_RECIPIENTS cfg else rs)
         in if recipients' = [] then (False, [])
            else
              (case outcome of
                 Sent \<Rightarrow> (True, [SmtpSend recipients' msg])
               | SmtpError \<Rightarrow> (False, [SmtpSend recipients' msg]))))"

definition send_slack_notification ::
  "config \<Rightarrow> http_outcome \<Rightarrow> 'm \<Rightarrow> string option \<Rightarrow> bool \<times> 'm io_event list" where
  "send_slack_notification cfg outcome msg webhook_url =
     (if \<not> ENABLE_SLACK cfg then (False, [])
      else
        (let url = (if truthy webhook_url then the webhook_url else SLACK_WEBHOOK_URL cfg)
         in if url = [] then (False, [])
            else
              (case outcome of
                 Status code \<Rightarrow> (code = 200, [HttpPost url msg])
               | RequestError \<Rightarrow> (False, [HttpPost url msg]))))"



subsection \<open>The cycle of \<^verbatim>\<open>scripts/check_budgets.py\<close>\<close>

record database =
  cost_data_tbl :: frame
  budgets_tbl :: "budget_row list"
  budget_alerts_tbl :: "alert_row list"

text \<open>The network, by the key of the alert a message is about.\<close>

record world =
  smtp :: "nat \<Rightarrow> smtp_outcome"
  http :: "nat \<Rightarrow> http_outcome"

text \<open>Lines 33 to 40: the registry built from the rows of the budget table.\<close>

definition load_budgets :: "budget_row list \<Rightarrow> registry" where
  "load_budgets budgets_df =
     foldl (\<lambda>reg r. add_budget (b_name r) (b_amount r) (b_period r) (b_provider r) (b_service r) reg)
       [] budgets_df"

text \<open>Lines 56 to 60: the key of the first budget row with the alert's name.\<close>

definition find_budget_id :: "budget_row list \<Rightarrow> string \<Rightarrow> nat option" where
  "find_budget_id budgets_df name = map_option b_id (find (\<lambda>r. b_name r = name) budgets_df)"

text \<open>
  Lines 52 to 113: store, send on both channels, mark. The state is the alert table and
  the log of exchanges. The subject and the body are formatted from the alert, which
  stands for them in the log; the row is stored at the time of the run.
\<close>

fun process_alerts ::
  "config \<Rightarrow> world \<Rightarrow> datetime \<Rightarrow> budget_row list \<Rightarrow> alert list \<Rightarrow>
   alert_row list \<times> alert io_event list \<Rightarrow> alert_row list \<times> alert io_event list" where
  "process_alerts cfg w now budgets_df [] st = st"
| "process_alerts cfg w now budgets_df (a # alerts) (tbl, evs) =
     (case find_budget_id budgets_df (alert_name a) of
        None \<Rightarrow> process_alerts cfg w now budgets_df alerts (tbl, evs)
      | Some budget_id \<Rightarrow>
          (let (alert_id, tbl1) =
                 store_budget_alert now budget_id (alert_actual a) (alert_percentage a) tbl
           in if alert_id = 0 then process_alerts cfg w now budgets_df alerts (tbl1, evs)
              else
                (let (email_sent, ev1) = send_email cfg (smtp w alert_id) a None;
                     (slack_sent, ev2) = send_slack_notification cfg (http w alert_id) a None;
                     tbl2 = (if email_sent \<or> slack_sent
                             then mark_alert_notified alert_id tbl1 else tbl1)
                 in process_alerts cfg w now budgets_df alerts (tbl2, evs @ ev1 @ ev2))))"

definition check_budgets_and_send_alerts ::
  "config \<Rightarrow> world \<Rightarrow> datetime \<Rightarrow> database \<Rightarrow> error + (database \<times> alert io_event list)" where
  "check_budgets_and_send_alerts cfg w now db =
     (let budgets_df = budgets_tbl db
      in if budgets_df = [] then Inr (db, [])
         else
           (case check_budgets now (cost_data_tbl db) (load_budgets budgets_df) of
              Inl e \<Rightarrow> Inl e
            | Inr (alerts, reg) \<Rightarrow>
                if alerts = [] then Inr (db, [])
                else
                  (let (tbl, evs) =
                         process_alerts cfg w now budgets_df alerts (budget_alerts_tbl db, [])
                   in Inr (db\<lparr>budget_alerts_tbl := tbl\<rparr>, evs))))"

text \<open>
  The scheduler runs the script again and again, at the times \<open>nows\<close>. A run that raises
  ends there; the exception comes from \<^verbatim>\<open>check_budgets\<close>, before the first write, so
  the database is as it was.
\<close>

fun run_cycles ::
  "config \<Rightarrow> world \<Rightarrow> datetime list \<Rightarrow> database \<Rightarrow> database \<times> alert io_event list" where
  "run_cycles cfg w [] db = (db, [])"
| "run_cycles cfg w (now # nows) db =
     (case check_budgets_and_send_alerts cfg w now db of
        Inl e \<Rightarrow> run_cycles cfg w nows db
      | Inr (db', evs) \<Rightarrow>
          (let (db'', evs') = run_cycles cfg w nows db' in (db'', evs @ evs')))"

subsection \<open>Example data\<close>

text \<open>
  The scenarios of the specification, at 10:30 on 15 May 2024. In May the AWS/EC2
  records sum to 620 and the AWS/S3 records to 300; one AWS/EC2 record lies in April;
  the GCP records of the year sum to 1250.
\<close>

definition now0 :: datetime where
  "now0 = \<lparr>year = 2024, month = 5, day = 15, hour = 10, minute = 30, second = 0, microsecond = 0\<rparr>"

definition cost_rec :: "nat \<Rightarrow> int \<Rightarrow> int \<Rightarrow> string \<Rightarrow> string \<Rightarrow> rat \<Rightarrow> cost_row" where
  "cost_rec i m d prov serv c =
     \<lparr>row_id = i, row_date = \<lparr>year = 2024, month = m, day = d\<rparr>, row_service = serv,
      row_cost = c, row_currency = ''USD'', row_provider = prov, row_amount = 0\<rparr>"

definition ledger0 :: frame where
  "ledger0 =
     \<lparr>columns = [''id'', ''date'', ''service'', ''cost'', ''currency'', ''provider''],
      rows = [cost_rec 1 5 3 ''AWS'' ''EC2'' 400,
              cost_rec 2 5 10 ''AWS'' ''EC2'' 220,
              cost_rec 3 5 5 ''AWS'' ''S3'' 300,
              cost_rec 4 4 20 ''AWS'' ''EC2'' 1000,
              cost_rec 5 1 10 ''GCP'' ''Compute'' 750,
              cost_rec 6 5 1 ''GCP'' ''Compute'' 500]\<rparr>"

definition aws_compute :: budget where
  "aws_compute = \<lparr>amount = 500, period = ''monthly'', provider = Some ''AWS'',
                   service = Some ''EC2'', last_alert = None\<rparr>"

definition aws_exact :: budget where
  "aws_exact = \<lparr>amount = 620, period = ''monthly'', provider = Some ''AWS'',
                 service = Some ''EC2'', last_alert = None\<rparr>"

definition gcp_year :: budget where
  "gcp_year = \<lparr>amount = 1000, period = ''yearly'', provider = Some ''GCP'',
                service = None, last_alert = None\<rparr>"

definition weekly :: budget where
  "weekly = \<lparr>amount = 1, period = ''weekly'', provider = None,
              service = None, last_alert = None\<rparr>"

text \<open>An alert table with one open and one notified alert.\<close>

definition alerts0 :: "alert_row list" where
  "alerts0 =
     [\<lparr>ba_id = 1, ba_budget_id = 1, ba_actual_cost = 620, ba_percentage = Percent 24,
       ba_alert_date = now0, ba_notified = False\<rparr>,
      \<lparr>ba_id = 2, ba_budget_id = 2, ba_actual_cost = 1250, ba_percentage = Percent 25,
       ba_alert_date = now0, ba_notified = True\<rparr>]"


definition aws_lambda :: budget where
  "aws_lambda = \<lparr>amount = 100, period = ''monthly'', provider = Some ''AWS'',
                  service = Some ''Lambda'', last_alert = None\<rparr>"

text \<open>
  A database with three budgets and no alert yet, a configuration with both channels
  off, one with only the webhook configured, and a network on which SMTP fails and the
  webhook answers 200.
\<close>

definition db0 :: database where
  "db0 =
     \<lparr>cost_data_tbl = ledger0,
      budgets_tbl =
        [\<lparr>b_id = 1, b_name = ''AWS-Compute'', b_amount = 500, b_period = ''monthly'',
          b_provider = Some ''AWS'', b_service = Some ''EC2'', b_created_at = now0\<rparr>,
         \<lparr>b_id = 2, b_name = ''Weekly'', b_amount = 1, b_period = ''weekly'',
          b_provider = None, b_service = None, b_created_at = now0\<rparr>,
         \<lparr>b_id = 3, b_name = ''GCP-Year'', b_amount = 1000, b_period = ''yearly'',
          b_provider = Some ''GCP'', b_service = None, b_created_at = now0\<rparr>],
      budget_alerts_tbl = []\<rparr>"

definition cfg_off :: config where
  "cfg_off = \<lparr>ENABLE_EMAIL = False, EMAIL_SENDER = [], EMAIL_RECIPIENTS = [],
               ENABLE_SLACK = False, SLACK_WEBHOOK_URL = []\<rparr>"

definition cfg_slack :: config where
  "cfg_slack = \<lparr>ENABLE_EMAIL = False, EMAIL_SENDER = ''ops@example.com'',
                 EMAIL_RECIPIENTS = [''team@example.com''],
                 ENABLE_SLACK = True, SLACK_WEBHOOK_URL = ''https://hooks.example.com/T0''\<rparr>"

definition world0 :: world where
  "world0 = \<lparr>smtp = (\<lambda>i. SmtpError), http = (\<lambda>i. Status 200)\<rparr>"

definition alert0 :: alert where
  "alert0 = \<lparr>alert_name = ''AWS-Compute'', alert_budget = 500, alert_actual = 620,
              alert_percentage = Percent 24, alert_period = ''monthly'',
              alert_provider = ''AWS'', alert_service = ''EC2'',
              alert_date = \<lparr>year = 2024, month = 5, day = 15\<rparr>\<rparr>"

section \<open>Properties\<close>

subsection \<open>The evaluation window\<close>

lemma days_in_month_ge: "1 \<le> days_in_month y m"
  by (simp add: days_in_month_def)

lemma quarter_month_cases:
  "1 \<le> m \<Longrightarrow> m \<le> 12 \<Longrightarrow> ((m - 1) div 3) * 3 + 1 \<in> {1, 4, 7, 10::int}"
  by simp presburger

lemma datetime_date_first:
  "1 \<le> y \<Longrightarrow> y \<le> 9999 \<Longrightarrow> 1 \<le> m \<Longrightarrow> m \<le> 12 \<Longrightarrow>
   datetime_date y m 1 = Inr \<lparr>year = y, month = m, day = 1\<rparr>"
  by (simp add: datetime_date_def days_in_month_ge)

text \<open>
  Claim C2. For every timestamp \<open>now\<close> that Python can represent (any day of any month,
  the 29th of February of a leap year included), the window of a monthly budget starts
  on day 1 of the month of \<open>now\<close>, the window of a quarterly budget starts on day 1 of the
  month \<open>((month - 1) div 3) * 3 + 1\<close>, which is one of 1, 4, 7 and 10, and the window of
  a yearly budget starts on the first of January of the year of \<open>now\<close>; each window ends
  on the date of \<open>now\<close>, and computing it raises nothing.
\<close>

theorem window_by_period:
  assumes "valid_date now"
  shows "window now ''monthly'' =
           Inr (Some (\<lparr>year = year now, month = month now, day = 1\<rparr>, date_of now))
       \<and> window now ''quarterly'' =
           Inr (Some (\<lparr>year = year now, month = ((month now - 1) div 3) * 3 + 1, day = 1\<rparr>,
                      date_of now))
       \<and> ((month now - 1) div 3) * 3 + 1 \<in> {1, 4, 7, 10}
       \<and> window now ''yearly'' =
           Inr (Some (\<lparr>year = year now, month = 1, day = 1\<rparr>, date_of now))"
proof -
  from assms have y: "1 \<le> year now" "year now \<le> 9999" and m: "1 \<le> month now" "month now \<le> 12"
    by (simp_all add: valid_date_def)
  have q: "((month now - 1) div 3) * 3 + 1 \<in> {1, 4, 7, 10}"
    using m by (rule quarter_month_cases)
  then have qr: "1 \<le> ((month now - 1) div 3) * 3 + 1" "((month now - 1) div 3) * 3 + 1 \<le> 12"
    by auto
  have "window now ''monthly'' =
           Inr (Some (\<lparr>year = year now, month = month now, day = 1\<rparr>, date_of now))"
    by (simp add: window_def start_date_def datetime_date_first y m)
  moreover have "window now ''quarterly'' =
           Inr (Some (\<lparr>year = year now, month = ((month now - 1) div 3) * 3 + 1, day = 1\<rparr>,
                      date_of now))"
  proof -
    have "datetime_date (year now) (((month now - 1) div 3) * 3 + 1) 1 =
            Inr \<lparr>year = year now, month = ((month now - 1) div 3) * 3 + 1, day = 1\<rparr>"
      by (rule datetime_date_first [OF y qr])
    then show ?thesis
      by (simp add: window_def start_date_def Let_def)
  qed
  moreover have "window now ''yearly'' =
           Inr (Some (\<lparr>year = year now, month = 1, day = 1\<rparr>, date_of now))"
    by (simp add: window_def start_date_def datetime_date_first y)
  ultimately show ?thesis using q by blast
qed

text \<open>The theorem at 23:59:59 on the 29th of February 2024.\<close>

theorem window_by_period_witness:
  "valid_date \<lparr>year = 2024, month = 2, day = 29, hour = 23, minute = 59, second = 59, microsecond = 0\<rparr>
   \<and> window \<lparr>year = 2024, month = 2, day = 29, hour = 23, minute = 59, second = 59, microsecond = 0\<rparr> ''monthly'' =
       Inr (Some (\<lparr>year = 2024, month = 2, day = 1\<rparr>, \<lparr>year = 2024, month = 2, day = 29\<rparr>))
   \<and> window \<lparr>year = 2024, month = 2, day = 29, hour = 23, minute = 59, second = 59, microsecond = 0\<rparr> ''quarterly'' =
       Inr (Some (\<lparr>year = 2024, month = 1, day = 1\<rparr>, \<lparr>year = 2024, month = 2, day = 29\<rparr>))
   \<and> window \<lparr>year = 2024, month = 2, day = 29, hour = 23, minute = 59, second = 59, microsecond = 0\<rparr> ''yearly'' =
       Inr (Some (\<lparr>year = 2024, month = 1, day = 1\<rparr>, \<lparr>year = 2024, month = 2, day = 29\<rparr>))"
proof -
  have v: "valid_date \<lparr>year = 2024, month = 2, day = 29, hour = 23, minute = 59, second = 59, microsecond = 0\<rparr>"
    by (simp add: valid_date_def days_in_month_def is_leap_def)
  show ?thesis
    using v window_by_period [OF v] by (simp add: date_of_def)
qed

subsection \<open>Evaluating the model on the example data\<close>

lemmas ex_defs = now0_def ledger0_def cost_rec_def aws_compute_def aws_exact_def gcp_year_def
  weekly_def
lemmas eval_defs = check_budgets_def check_budget_def total_cost_def window_def start_date_def
  datetime_date_def days_in_month_def is_leap_def date_of_def date_le_def get_cost_data_def
  truthy_def df_empty_def filter_service_def cost_column_def column_sum_def
  percentage_over_def or_All_def

subsection \<open>The threshold test\<close>

lemma check_budget_Some:
  "check_budget now tbl n b = Inr (Some a, b') \<longleftrightarrow>
     (\<exists>tc. total_cost now tbl b = Inr (Some tc) \<and> amount b < tc \<and>
        a = \<lparr>alert_name = n, alert_budget = amount b, alert_actual = tc,
              alert_percentage = percentage_over tc (amount b),
              alert_period = period b,
              alert_provider = or_All (provider b),
              alert_service = or_All (service b),
              alert_date = date_of now\<rparr> \<and>
        b' = b\<lparr>last_alert := Some now\<rparr>)"
  by (auto simp: check_budget_def split: sum.splits option.splits)

lemma check_budget_None:
  "check_budget now tbl n b = Inr (None, b') \<longleftrightarrow>
     (b' = b \<and> (total_cost now tbl b = Inr None \<or>
        (\<exists>tc. total_cost now tbl b = Inr (Some tc) \<and> \<not> amount b < tc)))"
  by (auto simp: check_budget_def split: sum.splits option.splits)

lemma loop_alert_mem:
  "check_budgets_loop now tbl reg = Inr (alerts, reg') \<Longrightarrow>
   (a \<in> set alerts) =
     (\<exists>n b b'. (n, b) \<in> set reg \<and> check_budget now tbl n b = Inr (Some a, b'))"
proof (induction reg arbitrary: alerts reg')
  case Nil
  then show ?case by simp
next
  case (Cons p reg)
  obtain n b where p: "p = (n, b)" by (cases p)
  from Cons.prems p obtain x b1 als rest' where
    step: "check_budget now tbl n b = Inr (x, b1)" and
    rest: "check_budgets_loop now tbl reg = Inr (als, rest')" and
    res: "alerts = (case x of None \<Rightarrow> [] | Some y \<Rightarrow> [y]) @ als"
    by (auto split: sum.splits prod.splits)
  note IH = Cons.IH [OF rest]
  show ?case
  proof (cases x)
    case None
    with step res IH p show ?thesis by auto
  next
    case (Some y)
    with step res IH p show ?thesis by auto
  qed
qed

text \<open>
  Claim C1. Take a run of \<^verbatim>\<open>check_budgets\<close> and a budget of the registry whose spend was
  aggregated to \<open>tc\<close> (the budget was not skipped). The run emits an alert with the
  budget's name iff \<open>tc\<close> is strictly greater than the amount, so spend equal to the
  amount gives no alert. Every such alert carries the amount, the spend \<open>tc\<close> and the
  percentage \<open>(tc - amount) / amount * 100\<close>; for a zero amount the float division
  gives infinity. For amount 1000 and spend 1250 the percentage is 25.
\<close>

theorem breach_iff_spend_over_amount:
  assumes "check_budgets now tbl reg = Inr (alerts, reg')"
    and "distinct (map fst reg)"
    and "(name, b) \<in> set reg"
    and "total_cost now tbl b = Inr (Some tc)"
  shows "((\<exists>a \<in> set alerts. alert_name a = name) \<longleftrightarrow> amount b < tc)
       \<and> (\<forall>a \<in> set alerts. alert_name a = name \<longrightarrow>
            alert_budget a = amount b \<and> alert_actual a = tc \<and>
            (amount b \<noteq> 0 \<longrightarrow> alert_percentage a = Percent ((tc - amount b) / amount b * 100)) \<and>
            (amount b = 0 \<longrightarrow> alert_percentage a = PosInf))
       \<and> percentage_over 1250 1000 = Percent 25"
proof -
  have loop: "check_budgets_loop now tbl reg = Inr (alerts, reg')"
    using assms(1) by (simp add: check_budgets_def)
  have uniq: "b2 = b" if "(name, b2) \<in> set reg" for b2
    using that assms(2,3) by (meson eq_key_imp_eq_value)
  have fwd: "alert_budget a = amount b \<and> alert_actual a = tc \<and> amount b < tc \<and>
             alert_percentage a = percentage_over tc (amount b)"
    if a: "a \<in> set alerts" and n: "alert_name a = name" for a
  proof -
    from a loop obtain n2 b2 b3 where
      m: "(n2, b2) \<in> set reg" and c: "check_budget now tbl n2 b2 = Inr (Some a, b3)"
      by (auto simp: loop_alert_mem)
    from c n have "n2 = name" by (auto simp: check_budget_Some)
    with m uniq have "b2 = b" by simp
    with c assms(4) show ?thesis by (auto simp: check_budget_Some)
  qed
  have bwd: "\<exists>a \<in> set alerts. alert_name a = name" if "amount b < tc"
  proof -
    from that assms(4) obtain a where
      c: "check_budget now tbl name b = Inr (Some a, b\<lparr>last_alert := Some now\<rparr>)"
      by (auto simp: check_budget_Some)
    then have "alert_name a = name" by (auto simp: check_budget_Some)
    moreover from c assms(3) loop have "a \<in> set alerts"
      by (auto simp: loop_alert_mem)
    ultimately show ?thesis by blast
  qed
  have ex: "percentage_over 1250 1000 = Percent 25"
    by (simp add: percentage_over_def)
  from fwd bwd ex show ?thesis
    by (auto simp: percentage_over_def)
qed

text \<open>
  The theorem on the example data: the yearly GCP budget of 1000 with spend 1250 is
  alerted at 25 percent, the budget of 620 with spend 620 is not.
\<close>

theorem breach_iff_spend_over_amount_witness:
  "check_budgets now0 ledger0 [(''GCP-Year'', gcp_year), (''AWS-Exact'', aws_exact)] =
     Inr ([\<lparr>alert_name = ''GCP-Year'', alert_budget = 1000, alert_actual = 1250,
             alert_percentage = Percent 25, alert_period = ''yearly'',
             alert_provider = ''GCP'', alert_service = ''All'',
             alert_date = \<lparr>year = 2024, month = 5, day = 15\<rparr>\<rparr>],
          [(''GCP-Year'', gcp_year\<lparr>last_alert := Some now0\<rparr>), (''AWS-Exact'', aws_exact)])
   \<and> total_cost now0 ledger0 gcp_year = Inr (Some 1250)
   \<and> amount gcp_year < 1250
   \<and> total_cost now0 ledger0 aws_exact = Inr (Some 620)
   \<and> amount aws_exact = 620"
proof -
  let ?reg = "[(''GCP-Year'', gcp_year), (''AWS-Exact'', aws_exact)]"
  let ?a = "\<lparr>alert_name = ''GCP-Year'', alert_budget = 1000, alert_actual = 1250,
             alert_percentage = Percent 25, alert_period = ''yearly'',
             alert_provider = ''GCP'', alert_service = ''All'',
             alert_date = \<lparr>year = 2024, month = 5, day = 15\<rparr>\<rparr>"
  let ?reg' = "[(''GCP-Year'', gcp_year\<lparr>last_alert := Some now0\<rparr>), (''AWS-Exact'', aws_exact)]"
  have run: "check_budgets now0 ledger0 ?reg = Inr ([?a], ?reg')"
    by (simp add: ex_defs eval_defs)
  have keys: "distinct (map fst ?reg)" by simp
  have m1: "(''GCP-Year'', gcp_year) \<in> set ?reg" by simp
  have m2: "(''AWS-Exact'', aws_exact) \<in> set ?reg" by simp
  have t1: "total_cost now0 ledger0 gcp_year = Inr (Some 1250)"
    by (simp add: ex_defs eval_defs)
  have t2: "total_cost now0 ledger0 aws_exact = Inr (Some 620)"
    by (simp add: ex_defs eval_defs)
  from breach_iff_spend_over_amount [OF run keys m1 t1]
  have "amount gcp_year < 1250" by simp
  moreover from breach_iff_spend_over_amount [OF run keys m2 t2]
  have "\<not> amount aws_exact < 620" by simp
  moreover have "amount aws_exact = 620" by (simp add: aws_exact_def)
  ultimately show ?thesis using run t1 t2 by simp
qed

subsection \<open>The registry\<close>

text \<open>
  Claim C9. A second \<^verbatim>\<open>add_budget\<close> with the same name replaces the first: the registry
  is the one the second call alone would have produced, the name maps to the second
  definition, \<^verbatim>\<open>check_budgets\<close> therefore never sees the first, and after any sequence of
  calls on the empty registry no two entries share a name.
\<close>

theorem add_budget_same_name_replaces:
  "add_budget name a2 p2 pr2 s2 (add_budget name a1 p1 pr1 s1 reg) =
     add_budget name a2 p2 pr2 s2 reg
   \<and> map_of (add_budget name a2 p2 pr2 s2 (add_budget name a1 p1 pr1 s1 reg)) name =
       Some \<lparr>amount = a2, period = p2, provider = pr2, service = s2, last_alert = None\<rparr>
   \<and> distinct (map fst
        (foldl (\<lambda>r c. case c of (n, a, p, pr, s) \<Rightarrow> add_budget n a p pr s r) [] calls))
   \<and> check_budgets now tbl (add_budget name a2 p2 pr2 s2 (add_budget name a1 p1 pr1 s1 reg)) =
       check_budgets now tbl (add_budget name a2 p2 pr2 s2 reg)"
proof -
  have rep: "add_budget name a2 p2 pr2 s2 (add_budget name a1 p1 pr1 s1 reg) =
     add_budget name a2 p2 pr2 s2 reg"
    by (simp add: add_budget_def)
  have look: "map_of (add_budget name a2 p2 pr2 s2 reg) name =
       Some \<lparr>amount = a2, period = p2, provider = pr2, service = s2, last_alert = None\<rparr>"
    by (simp add: add_budget_def update_conv')
  have inv: "distinct (map fst r0) \<Longrightarrow> distinct (map fst
        (foldl (\<lambda>r c. case c of (n, a, p, pr, s) \<Rightarrow> add_budget n a p pr s r) r0 calls))"
    for r0 :: registry
    by (induction calls arbitrary: r0) (auto simp: add_budget_def distinct_update)
  from rep look inv [of "[]"] show ?thesis by simp
qed

text \<open>The theorem on a registry that already holds the name.\<close>

theorem add_budget_same_name_replaces_witness:
  "add_budget ''A'' 200 ''yearly'' None None
     (add_budget ''A'' 100 ''monthly'' (Some ''AWS'') None [(''B'', weekly), (''A'', aws_exact), (''C'', gcp_year)]) =
   [(''B'', weekly),
    (''A'', \<lparr>amount = 200, period = ''yearly'', provider = None, service = None, last_alert = None\<rparr>),
    (''C'', gcp_year)]"
  using add_budget_same_name_replaces
    [of "''A''" 200 "''yearly''" None None 100 "''monthly''" "Some ''AWS''" None
        "[(''B'', weekly), (''A'', aws_exact), (''C'', gcp_year)]"]
  by (simp add: add_budget_def)

subsection \<open>The alert table\<close>

text \<open>
  Claim C10. \<^verbatim>\<open>mark_alert_notified\<close> with a key that no stored alert has leaves the
  table as it is; the function has no failing branch.
\<close>

theorem mark_alert_notified_unknown_id:
  "alert_id \<notin> ba_id ` set tbl \<Longrightarrow> mark_alert_notified alert_id tbl = tbl"
  by (induction tbl) auto

text \<open>The theorem on the example table, whose keys are 1 and 2.\<close>

theorem mark_alert_notified_unknown_id_witness:
  "7 \<notin> ba_id ` set alerts0 \<and> mark_alert_notified 7 alerts0 = alerts0"
proof -
  have h: "7 \<notin> ba_id ` set alerts0" by (simp add: alerts0_def)
  from h mark_alert_notified_unknown_id [OF h] show ?thesis by simp
qed

lemma length_mark [simp]: "length (mark_alert_notified alert_id tbl) = length tbl"
  by (induction tbl) auto

lemma mark_nth:
  "i < length tbl \<Longrightarrow>
   mark_alert_notified alert_id tbl ! i = tbl ! i \<or>
   mark_alert_notified alert_id tbl ! i = (tbl ! i)\<lparr>ba_notified := True\<rparr>"
proof (induction tbl arbitrary: i)
  case Nil
  then show ?case by simp
next
  case (Cons r rs)
  then show ?case by (cases i) auto
qed

lemma apply_op_length: "length tbl \<le> length (apply_op tbl opn)"
  by (cases opn) (simp_all add: store_budget_alert_def Let_def)

lemma apply_op_nth:
  "i < length tbl \<Longrightarrow>
   apply_op tbl opn ! i = tbl ! i \<or> apply_op tbl opn ! i = (tbl ! i)\<lparr>ba_notified := True\<rparr>"
  by (cases opn) (simp_all add: store_budget_alert_def Let_def nth_append mark_nth)

lemma foldl_apply_op_rows:
  "i < length tbl \<Longrightarrow>
   i < length (foldl apply_op tbl ops) \<and>
   (foldl apply_op tbl ops ! i = tbl ! i \<or>
    foldl apply_op tbl ops ! i = (tbl ! i)\<lparr>ba_notified := True\<rparr>)"
proof (induction ops arbitrary: tbl)
  case Nil
  then show ?case by simp
next
  case (Cons opn ops)
  have len: "i < length (apply_op tbl opn)"
    using Cons.prems apply_op_length [of tbl opn] by simp
  from Cons.IH [OF len] apply_op_nth [OF Cons.prems, of opn]
  show ?case by auto
qed

text \<open>
  Claim C7. \<^verbatim>\<open>store_budget_alert\<close> appends a row with \<^verbatim>\<open>notified = False\<close>. Through any
  sequence of \<^verbatim>\<open>store_budget_alert\<close>, \<^verbatim>\<open>mark_alert_notified\<close> and queries every stored
  row stays at its place and is either unchanged or the same row with
  \<^verbatim>\<open>notified = True\<close>: a notified alert is never set back.
\<close>

theorem notified_never_reverts:
  "(\<exists>r. store_budget_alert now budget_id actual_cost pct tbl = (ba_id r, tbl @ [r]) \<and>
        \<not> ba_notified r)
   \<and> (\<forall>i < length tbl.
        i < length (foldl apply_op tbl ops) \<and>
        (foldl apply_op tbl ops ! i = tbl ! i \<or>
         foldl apply_op tbl ops ! i = (tbl ! i)\<lparr>ba_notified := True\<rparr>) \<and>
        (ba_notified (tbl ! i) \<longrightarrow> ba_notified (foldl apply_op tbl ops ! i)))"
proof -
  have "\<exists>r. store_budget_alert now budget_id actual_cost pct tbl = (ba_id r, tbl @ [r]) \<and>
        \<not> ba_notified r"
    by (simp add: store_budget_alert_def Let_def)
  moreover have "i < length (foldl apply_op tbl ops) \<and>
        (foldl apply_op tbl ops ! i = tbl ! i \<or>
         foldl apply_op tbl ops ! i = (tbl ! i)\<lparr>ba_notified := True\<rparr>) \<and>
        (ba_notified (tbl ! i) \<longrightarrow> ba_notified (foldl apply_op tbl ops ! i))"
    if "i < length tbl" for i
    using foldl_apply_op_rows [OF that, of ops] by auto
  ultimately show ?thesis by blast
qed

text \<open>The theorem on the example table and five operations.\<close>

theorem notified_never_reverts_witness:
  "1 < length alerts0 \<and> ba_notified (alerts0 ! 1)
   \<and> ba_notified
       (foldl apply_op alerts0
          [Mark 2, Store now0 1 620 (Percent 24), Query None (Some False), Mark 1, Mark 9] ! 1)"
proof -
  have l: "1 < length alerts0" by (simp add: alerts0_def)
  have n: "ba_notified (alerts0 ! 1)" by (simp add: alerts0_def)
  from notified_never_reverts
    [of now0 1 620 "Percent 24" alerts0
        "[Mark 2, Store now0 1 620 (Percent 24), Query None (Some False), Mark 1, Mark 9]"]
  have "\<forall>i < length alerts0.
          ba_notified (alerts0 ! i) \<longrightarrow>
          ba_notified (foldl apply_op alerts0
            [Mark 2, Store now0 1 620 (Percent 24), Query None (Some False), Mark 1, Mark 9] ! i)"
    by blast
  with l n show ?thesis by blast
qed

subsection \<open>Skipped budgets\<close>

lemma loop_length:
  "check_budgets_loop now tbl reg = Inr (alerts, reg') \<Longrightarrow> length reg' = length reg"
proof (induction reg arbitrary: alerts reg')
  case Nil
  then show ?case by simp
next
  case (Cons p reg)
  then show ?case
    by (cases p) (auto split: sum.splits prod.splits)
qed

lemma loop_append:
  "check_budgets_loop now tbl (xs @ ys) =
     (case check_budgets_loop now tbl xs of
        Inl e \<Rightarrow> Inl e
      | Inr (a1, r1) \<Rightarrow>
          (case check_budgets_loop now tbl ys of
             Inl e \<Rightarrow> Inl e
           | Inr (a2, r2) \<Rightarrow> Inr (a1 @ a2, r1 @ r2)))"
proof (induction xs)
  case Nil
  then show ?case by (simp split: sum.splits)
next
  case (Cons p xs)
  then show ?case
    by (cases p) (simp split: sum.splits prod.splits)
qed

lemma unknown_period_total_cost:
  "period b \<noteq> ''monthly'' \<Longrightarrow> period b \<noteq> ''quarterly'' \<Longrightarrow> period b \<noteq> ''yearly'' \<Longrightarrow>
   total_cost now tbl b = Inr None"
  by (simp add: total_cost_def window_def start_date_def)

text \<open>
  Claim C4. A budget whose period is none of \<^verbatim>\<open>monthly\<close>, \<^verbatim>\<open>quarterly\<close> and
  \<^verbatim>\<open>yearly\<close> is skipped: its step gives no alert, raises nothing and leaves the entry as
  it is, and a run over a registry that holds it gives what the run over the registry
  without it gives (the same alerts in the same order, or the same exception), with the
  skipped entry unchanged at its place.
\<close>

theorem unknown_period_skipped:
  assumes "period b \<notin> {''monthly'', ''quarterly'', ''yearly''}"
  shows "check_budget now tbl name b = Inr (None, b)
       \<and> check_budgets now tbl (pre @ (name, b) # post) =
           map_sum id
             (\<lambda>(alerts, reg'). (alerts, take (length pre) reg' @ (name, b) # drop (length pre) reg'))
             (check_budgets now tbl (pre @ post))"
proof -
  from assms have tc: "total_cost now tbl b = Inr None"
    by (simp add: unknown_period_total_cost)
  then have one: "check_budget now tbl name b = Inr (None, b)"
    by (simp add: check_budget_def)
  have "check_budgets_loop now tbl (pre @ (name, b) # post) =
           map_sum id
             (\<lambda>(alerts, reg'). (alerts, take (length pre) reg' @ (name, b) # drop (length pre) reg'))
             (check_budgets_loop now tbl (pre @ post))"
  proof (cases "check_budgets_loop now tbl pre")
    case (Inl e)
    then show ?thesis by (simp add: loop_append)
  next
    case (Inr r1)
    obtain a1 p1 where r1: "r1 = (a1, p1)" by (cases r1)
    with Inr have len: "length p1 = length pre" by (simp add: loop_length)
    show ?thesis
    proof (cases "check_budgets_loop now tbl post")
      case (Inl e)
      with Inr r1 one show ?thesis by (simp add: loop_append)
    next
      case (Inr r2)
      obtain a2 p2 where r2: "r2 = (a2, p2)" by (cases r2)
      from \<open>check_budgets_loop now tbl pre = Inr r1\<close> Inr r1 r2 one len
      show ?thesis by (simp add: loop_append)
    qed
  qed
  with one show ?thesis by (simp add: check_budgets_def)
qed

text \<open>The theorem on a weekly budget between the two budgets that are over.\<close>

theorem unknown_period_skipped_witness:
  "period weekly \<notin> {''monthly'', ''quarterly'', ''yearly''}
   \<and> check_budget now0 ledger0 ''Weekly'' weekly = Inr (None, weekly)
   \<and> check_budgets now0 ledger0
        [(''GCP-Year'', gcp_year), (''Weekly'', weekly), (''AWS-Compute'', aws_compute)] =
       Inr ([\<lparr>alert_name = ''GCP-Year'', alert_budget = 1000, alert_actual = 1250,
               alert_percentage = Percent 25, alert_period = ''yearly'',
               alert_provider = ''GCP'', alert_service = ''All'',
               alert_date = \<lparr>year = 2024, month = 5, day = 15\<rparr>\<rparr>,
             \<lparr>alert_name = ''AWS-Compute'', alert_budget = 500, alert_actual = 620,
               alert_percentage = Percent 24, alert_period = ''monthly'',
               alert_provider = ''AWS'', alert_service = ''EC2'',
               alert_date = \<lparr>year = 2024, month = 5, day = 15\<rparr>\<rparr>],
            [(''GCP-Year'', gcp_year\<lparr>last_alert := Some now0\<rparr>), (''Weekly'', weekly),
             (''AWS-Compute'', aws_compute\<lparr>last_alert := Some now0\<rparr>)])"
proof -
  have h: "period weekly \<notin> {''monthly'', ''quarterly'', ''yearly''}"
    by (simp add: weekly_def)
  have rest: "check_budgets now0 ledger0 ([(''GCP-Year'', gcp_year)] @ [(''AWS-Compute'', aws_compute)]) =
       Inr ([\<lparr>alert_name = ''GCP-Year'', alert_budget = 1000, alert_actual = 1250,
               alert_percentage = Percent 25, alert_period = ''yearly'',
               alert_provider = ''GCP'', alert_service = ''All'',
               alert_date = \<lparr>year = 2024, month = 5, day = 15\<rparr>\<rparr>,
             \<lparr>alert_name = ''AWS-Compute'', alert_budget = 500, alert_actual = 620,
               alert_percentage = Percent 24, alert_period = ''monthly'',
               alert_provider = ''AWS'', alert_service = ''EC2'',
               alert_date = \<lparr>year = 2024, month = 5, day = 15\<rparr>\<rparr>],
            [(''GCP-Year'', gcp_year\<lparr>last_alert := Some now0\<rparr>),
             (''AWS-Compute'', aws_compute\<lparr>last_alert := Some now0\<rparr>)])"
    by (simp add: ex_defs eval_defs)
  from unknown_period_skipped
    [OF h, of now0 ledger0 "''Weekly''" "[(''GCP-Year'', gcp_year)]" "[(''AWS-Compute'', aws_compute)]"]
  show ?thesis using h rest by simp
qed

subsection \<open>Spend aggregation\<close>









text \<open>
  The amount matters: the query result is tested for emptiness before the service
  filter, so after a filter that keeps nothing the spend 0 is compared with the amount,
  and a budget with a negative amount is alerted.
\<close>

lemma negative_amount_alerts_on_no_match:
  "check_budget now0 ledger0 ''AWS-Lambda'' (aws_lambda\<lparr>amount := - 1\<rparr>) =
     Inr (Some \<lparr>alert_name = ''AWS-Lambda'', alert_budget = - 1, alert_actual = 0,
                alert_percentage = Percent (- 100), alert_period = ''monthly'',
                alert_provider = ''AWS'', alert_service = ''Lambda'',
                alert_date = \<lparr>year = 2024, month = 5, day = 15\<rparr>\<rparr>,
          aws_lambda\<lparr>amount := - 1, last_alert := Some now0\<rparr>)"
  by (simp add: aws_lambda_def ex_defs eval_defs)

subsection \<open>Dispatch\<close>

lemmas cycle_defs = check_budgets_and_send_alerts_def load_budgets_def add_budget_def
  find_budget_id_def store_budget_alert_def next_id_def send_email_def
  send_slack_notification_def
lemmas ex_db_defs = db0_def cfg_off_def cfg_slack_def world0_def alert0_def

lemma foldr_max_ge: "r \<in> set tbl \<Longrightarrow> ba_id r \<le> foldr max (map ba_id tbl) 0"
  by (induction tbl) (auto simp: max_def)

lemma next_id_fresh: "next_id tbl \<notin> ba_id ` set tbl"
proof
  assume "next_id tbl \<in> ba_id ` set tbl"
  then obtain r where "r \<in> set tbl" "ba_id r = next_id tbl" by auto
  with foldr_max_ge [of r tbl] show False by (simp add: next_id_def)
qed

lemma next_id_pos: "next_id tbl \<noteq> 0"
  by (simp add: next_id_def)

lemma mark_append_fresh:
  "alert_id \<notin> ba_id ` set tbl \<Longrightarrow>
   mark_alert_notified alert_id (tbl @ rs) = tbl @ mark_alert_notified alert_id rs"
  by (induction tbl) auto

lemma send_email_events:
  "snd (send_email cfg outcome msg rcpts) = snd (send_email cfg Sent msg rcpts)"
  by (cases outcome) (simp_all add: send_email_def Let_def)

lemma send_slack_events:
  "snd (send_slack_notification cfg outcome msg url) =
   snd (send_slack_notification cfg (Status 200) msg url)"
  by (cases outcome) (simp_all add: send_slack_notification_def Let_def)

lemma process_alerts_step:
  assumes "find_budget_id budgets_df (alert_name a) = Some budget_id"
  shows "process_alerts cfg w now budgets_df (a # alerts) (tbl, evs) =
     process_alerts cfg w now budgets_df alerts
       (tbl @ [\<lparr>ba_id = next_id tbl, ba_budget_id = budget_id,
                 ba_actual_cost = alert_actual a, ba_percentage = alert_percentage a,
                 ba_alert_date = now,
                 ba_notified = (fst (send_email cfg (smtp w (next_id tbl)) a None) \<or>
                    fst (send_slack_notification cfg (http w (next_id tbl)) a None))\<rparr>],
        evs @ snd (send_email cfg (smtp w (next_id tbl)) a None) @
          snd (send_slack_notification cfg (http w (next_id tbl)) a None))"
  using assms next_id_pos [of tbl] next_id_fresh [of tbl]
  by (auto simp: store_budget_alert_def Let_def mark_append_fresh split: prod.splits)








subsection \<open>Repeated cycles\<close>

lemma load_budgets_keys_aux:
  "fst ` set (foldl (\<lambda>reg r. add_budget (b_name r) (b_amount r) (b_period r) (b_provider r)
                 (b_service r) reg) r0 budgets_df) =
   fst ` set r0 \<union> b_name ` set budgets_df"
  by (induction budgets_df arbitrary: r0) (auto simp: add_budget_def dom_update)

lemma load_budgets_keys: "fst ` set (load_budgets budgets_df) = b_name ` set budgets_df"
  by (simp add: load_budgets_def load_budgets_keys_aux)

lemma find_budget_id_found:
  "name \<in> b_name ` set budgets_df \<Longrightarrow> find_budget_id budgets_df name \<noteq> None"
  by (auto simp: find_budget_id_def find_None_iff)

lemma loop_alert_names:
  assumes "check_budgets_loop now tbl reg = Inr (alerts, reg')" and "a \<in> set alerts"
  shows "alert_name a \<in> fst ` set reg"
proof -
  from assms obtain n b b' where
    "(n, b) \<in> set reg" "check_budget now tbl n b = Inr (Some a, b')"
    by (auto simp: loop_alert_mem)
  then show ?thesis by (force simp: check_budget_Some)
qed

lemma process_alerts_found:
  assumes "\<forall>a \<in> set alerts. find_budget_id budgets_df (alert_name a) \<noteq> None"
  shows "\<exists>new. process_alerts cfg w now budgets_df alerts (tbl, evs) =
           (tbl @ new,
            evs @ concat (map (\<lambda>a. snd (send_email cfg Sent a None) @
                                    snd (send_slack_notification cfg (Status 200) a None)) alerts)) \<and>
         map (\<lambda>r. (ba_budget_id r, ba_actual_cost r, ba_percentage r)) new =
           map (\<lambda>a. (the (find_budget_id budgets_df (alert_name a)), alert_actual a,
                      alert_percentage a)) alerts"
  using assms
proof (induction alerts arbitrary: tbl evs)
  case Nil
  then show ?case by simp
next
  case (Cons a alerts)
  from Cons.prems obtain budget_id where f: "find_budget_id budgets_df (alert_name a) = Some budget_id"
    by auto
  let ?r = "\<lparr>ba_id = next_id tbl, ba_budget_id = budget_id,
                 ba_actual_cost = alert_actual a, ba_percentage = alert_percentage a,
                 ba_alert_date = now,
                 ba_notified = (fst (send_email cfg (smtp w (next_id tbl)) a None) \<or>
                    fst (send_slack_notification cfg (http w (next_id tbl)) a None))\<rparr>"
  let ?e = "snd (send_email cfg Sent a None) @ snd (send_slack_notification cfg (Status 200) a None)"
  let ?ev = "\<lambda>a. snd (send_email cfg Sent a None) @
                  snd (send_slack_notification cfg (Status 200) a None)"
  have e: "snd (send_email cfg (smtp w (next_id tbl)) a None) @
          snd (send_slack_notification cfg (http w (next_id tbl)) a None) = ?e"
    using send_email_events [of cfg "smtp w (next_id tbl)" a None]
      send_slack_events [of cfg "http w (next_id tbl)" a None] by simp
  from Cons.prems have rest: "\<forall>a \<in> set alerts. find_budget_id budgets_df (alert_name a) \<noteq> None"
    by simp
  from Cons.IH [OF rest, of "tbl @ [?r]" "evs @ ?e"] obtain new where
    n: "process_alerts cfg w now budgets_df alerts (tbl @ [?r], evs @ ?e) =
          ((tbl @ [?r]) @ new, (evs @ ?e) @ concat (map ?ev alerts))"
    and k: "map (\<lambda>r. (ba_budget_id r, ba_actual_cost r, ba_percentage r)) new =
           map (\<lambda>a. (the (find_budget_id budgets_df (alert_name a)), alert_actual a,
                      alert_percentage a)) alerts"
    by blast
  have "process_alerts cfg w now budgets_df (a # alerts) (tbl, evs) =
          (tbl @ (?r # new), evs @ concat (map ?ev (a # alerts)))"
    using n e by (simp only: process_alerts_step [OF f]) simp
  moreover have "map (\<lambda>r. (ba_budget_id r, ba_actual_cost r, ba_percentage r)) (?r # new) =
           map (\<lambda>a. (the (find_budget_id budgets_df (alert_name a)), alert_actual a,
                      alert_percentage a)) (a # alerts)"
    using k f by simp
  ultimately show ?case by blast
qed

lemma cycle_breach:
  assumes run: "check_budgets now (cost_data_tbl db) (load_budgets (budgets_tbl db)) =
                  Inr (alerts, reg')"
    and ne: "alerts \<noteq> []"
  shows "\<exists>new. check_budgets_and_send_alerts cfg w now db =
           Inr (db\<lparr>budget_alerts_tbl := budget_alerts_tbl db @ new\<rparr>,
                concat (map (\<lambda>a. snd (send_email cfg Sent a None) @
                                   snd (send_slack_notification cfg (Status 200) a None)) alerts)) \<and>
         map (\<lambda>r. (ba_budget_id r, ba_actual_cost r, ba_percentage r)) new =
           map (\<lambda>a. (the (find_budget_id (budgets_tbl db) (alert_name a)), alert_actual a,
                      alert_percentage a)) alerts"
proof -
  have loop: "check_budgets_loop now (cost_data_tbl db) (load_budgets (budgets_tbl db)) =
                Inr (alerts, reg')"
    using run by (simp add: check_budgets_def)
  have found: "\<forall>a \<in> set alerts. find_budget_id (budgets_tbl db) (alert_name a) \<noteq> None"
    using loop_alert_names [OF loop] load_budgets_keys [of "budgets_tbl db"]
      find_budget_id_found [of _ "budgets_tbl db"] by blast
  have nonempty: "budgets_tbl db \<noteq> []"
  proof
    assume "budgets_tbl db = []"
    with loop have "alerts = []" by (simp add: load_budgets_def)
    with ne show False by simp
  qed
  from process_alerts_found [OF found, of cfg w now "budget_alerts_tbl db" "[]"]
  obtain new where
    p: "process_alerts cfg w now (budgets_tbl db) alerts (budget_alerts_tbl db, []) =
          (budget_alerts_tbl db @ new,
           concat (map (\<lambda>a. snd (send_email cfg Sent a None) @
                              snd (send_slack_notification cfg (Status 200) a None)) alerts))"
    and k: "map (\<lambda>r. (ba_budget_id r, ba_actual_cost r, ba_percentage r)) new =
           map (\<lambda>a. (the (find_budget_id (budgets_tbl db) (alert_name a)), alert_actual a,
                      alert_percentage a)) alerts"
    by auto
  from run ne nonempty p have "check_budgets_and_send_alerts cfg w now db =
           Inr (db\<lparr>budget_alerts_tbl := budget_alerts_tbl db @ new\<rparr>,
                concat (map (\<lambda>a. snd (send_email cfg Sent a None) @
                                   snd (send_slack_notification cfg (Status 200) a None)) alerts))"
    by (simp add: check_budgets_and_send_alerts_def)
  with k show ?thesis by blast
qed

lemma run_cycles_breach:
  assumes "check_budgets now (cost_data_tbl db) (load_budgets (budgets_tbl db)) =
             Inr (alerts, reg')"
    and "alerts \<noteq> []"
  shows "\<exists>new. run_cycles cfg w (replicate n now) db =
           (db\<lparr>budget_alerts_tbl := budget_alerts_tbl db @ new\<rparr>,
            concat (replicate n
              (concat (map (\<lambda>a. snd (send_email cfg Sent a None) @
                                 snd (send_slack_notification cfg (Status 200) a None)) alerts)))) \<and>
         map (\<lambda>r. (ba_budget_id r, ba_actual_cost r, ba_percentage r)) new =
           concat (replicate n
             (map (\<lambda>a. (the (find_budget_id (budgets_tbl db) (alert_name a)), alert_actual a,
                        alert_percentage a)) alerts))"
  using assms
proof (induction n arbitrary: db)
  case 0
  have "run_cycles cfg w (replicate 0 now) db =
          (db\<lparr>budget_alerts_tbl := budget_alerts_tbl db @ []\<rparr>, [])"
    by simp
  then show ?case by fastforce
next
  case (Suc n)
  let ?ev = "concat (map (\<lambda>a. snd (send_email cfg Sent a None) @
                             snd (send_slack_notification cfg (Status 200) a None)) alerts)"
  let ?keys = "map (\<lambda>a. (the (find_budget_id (budgets_tbl db) (alert_name a)), alert_actual a,
                        alert_percentage a)) alerts"
  from cycle_breach [OF Suc.prems, of cfg w] obtain new1 where
    c: "check_budgets_and_send_alerts cfg w now db =
          Inr (db\<lparr>budget_alerts_tbl := budget_alerts_tbl db @ new1\<rparr>, ?ev)"
    and k1: "map (\<lambda>r. (ba_budget_id r, ba_actual_cost r, ba_percentage r)) new1 = ?keys"
    by blast
  let ?db1 = "db\<lparr>budget_alerts_tbl := budget_alerts_tbl db @ new1\<rparr>"
  have run1: "check_budgets now (cost_data_tbl ?db1) (load_budgets (budgets_tbl ?db1)) =
                Inr (alerts, reg')"
    using Suc.prems(1) by simp
  from Suc.IH [OF run1 Suc.prems(2)] obtain new2 where
    r: "run_cycles cfg w (replicate n now) ?db1 =
          (db\<lparr>budget_alerts_tbl := budget_alerts_tbl db @ new1 @ new2\<rparr>,
           concat (replicate n ?ev))"
    and k2: "map (\<lambda>r. (ba_budget_id r, ba_actual_cost r, ba_percentage r)) new2 =
               concat (replicate n ?keys)"
    by auto
  from c r have "run_cycles cfg w (replicate (Suc n) now) db =
      (db\<lparr>budget_alerts_tbl := budget_alerts_tbl db @ (new1 @ new2)\<rparr>,
       concat (replicate (Suc n) ?ev))"
    by simp
  moreover from k1 k2
  have "map (\<lambda>r. (ba_budget_id r, ba_actual_cost r, ba_percentage r)) (new1 @ new2) =
          concat (replicate (Suc n) ?keys)"
    by simp
  ultimately show ?case by blast
qed

text \<open>
  Claim C8. In a state where \<^verbatim>\<open>check_budgets\<close> returns and some budget of the registry
  has a spend above its amount, the run detects the breach, and \<open>n\<close> runs of the cycle
  at that time append \<open>n\<close> copies of the alerts to the alert table: one row per alert
  and run, with the same budget, spend and percentage each time, and the exchanges of
  every configured channel are started again in every run. Nothing suppresses the
  repetition.
\<close>

theorem repeated_cycles_duplicate_alerts:
  assumes "check_budgets now (cost_data_tbl db) (load_budgets (budgets_tbl db)) =
             Inr (alerts, reg')"
    and "(name, b) \<in> set (load_budgets (budgets_tbl db))"
    and "total_cost now (cost_data_tbl db) b = Inr (Some tc)"
    and "amount b < tc"
  shows "(\<exists>a \<in> set alerts. alert_name a = name \<and> alert_actual a = tc)
       \<and> (\<exists>new. run_cycles cfg w (replicate n now) db =
             (db\<lparr>budget_alerts_tbl := budget_alerts_tbl db @ new\<rparr>,
              concat (replicate n
                (concat (map (\<lambda>a. snd (send_email cfg Sent a None) @
                                   snd (send_slack_notification cfg (Status 200) a None)) alerts)))) \<and>
           length new = n * length alerts \<and>
           map (\<lambda>r. (ba_budget_id r, ba_actual_cost r, ba_percentage r)) new =
             concat (replicate n
               (map (\<lambda>a. (the (find_budget_id (budgets_tbl db) (alert_name a)), alert_actual a,
                          alert_percentage a)) alerts)))"
proof -
  have loop: "check_budgets_loop now (cost_data_tbl db) (load_budgets (budgets_tbl db)) =
                Inr (alerts, reg')"
    using assms(1) by (simp add: check_budgets_def)
  from assms(3,4) obtain a where
    c: "check_budget now (cost_data_tbl db) name b = Inr (Some a, b\<lparr>last_alert := Some now\<rparr>)"
    by (auto simp: check_budget_Some)
  then have an: "alert_name a = name \<and> alert_actual a = tc"
    using assms(3) by (auto simp: check_budget_Some)
  from c assms(2) loop have mem: "a \<in> set alerts"
    by (auto simp: loop_alert_mem)
  then have ne: "alerts \<noteq> []" by auto
  from run_cycles_breach [OF assms(1) ne, of cfg w n] obtain new where
    r: "run_cycles cfg w (replicate n now) db =
             (db\<lparr>budget_alerts_tbl := budget_alerts_tbl db @ new\<rparr>,
              concat (replicate n
                (concat (map (\<lambda>a. snd (send_email cfg Sent a None) @
                                   snd (send_slack_notification cfg (Status 200) a None)) alerts))))"
    and k: "map (\<lambda>r. (ba_budget_id r, ba_actual_cost r, ba_percentage r)) new =
             concat (replicate n
               (map (\<lambda>a. (the (find_budget_id (budgets_tbl db) (alert_name a)), alert_actual a,
                          alert_percentage a)) alerts))"
    by blast
  from k have "length (map (\<lambda>r. (ba_budget_id r, ba_actual_cost r, ba_percentage r)) new) =
     length (concat (replicate n
               (map (\<lambda>a. (the (find_budget_id (budgets_tbl db) (alert_name a)), alert_actual a,
                          alert_percentage a)) alerts)))"
    by simp
  then have len: "length new = n * length alerts"
    by (simp add: length_concat sum_list_replicate)
  from an mem r k len show ?thesis by blast
qed

text \<open>
  The theorem on the example database with the webhook configured: two runs store four
  rows, two for each of the two budgets that are over, and post four messages.
\<close>

theorem repeated_cycles_duplicate_alerts_witness:
  "(''AWS-Compute'', aws_compute) \<in> set (load_budgets (budgets_tbl db0))
   \<and> total_cost now0 (cost_data_tbl db0) aws_compute = Inr (Some 620)
   \<and> amount aws_compute < 620
   \<and> length (budget_alerts_tbl (fst (run_cycles cfg_slack world0 (replicate (Suc (Suc 0)) now0) db0))) = 4
   \<and> map (\<lambda>r. (ba_id r, ba_budget_id r, ba_actual_cost r, ba_notified r))
         (budget_alerts_tbl (fst (run_cycles cfg_slack world0 (replicate (Suc (Suc 0)) now0) db0))) =
       [(1, 1, 620, True), (2, 3, 1250, True), (3, 1, 620, True), (4, 3, 1250, True)]
   \<and> length (snd (run_cycles cfg_slack world0 (replicate (Suc (Suc 0)) now0) db0)) = 4"
proof -
  let ?a1 = "\<lparr>alert_name = ''AWS-Compute'', alert_budget = 500, alert_actual = 620,
               alert_percentage = Percent 24, alert_period = ''monthly'',
               alert_provider = ''AWS'', alert_service = ''EC2'',
               alert_date = \<lparr>year = 2024, month = 5, day = 15\<rparr>\<rparr>"
  let ?a2 = "\<lparr>alert_name = ''GCP-Year'', alert_budget = 1000, alert_actual = 1250,
               alert_percentage = Percent 25, alert_period = ''yearly'',
               alert_provider = ''GCP'', alert_service = ''All'',
               alert_date = \<lparr>year = 2024, month = 5, day = 15\<rparr>\<rparr>"
  let ?reg' = "[(''AWS-Compute'', aws_compute\<lparr>last_alert := Some now0\<rparr>), (''Weekly'', weekly),
               (''GCP-Year'', gcp_year\<lparr>last_alert := Some now0\<rparr>)]"
  have run: "check_budgets now0 (cost_data_tbl db0) (load_budgets (budgets_tbl db0)) =
               Inr ([?a1, ?a2], ?reg')"
    by (simp add: ex_db_defs cycle_defs ex_defs eval_defs)
  have m: "(''AWS-Compute'', aws_compute) \<in> set (load_budgets (budgets_tbl db0))"
    by (simp add: ex_db_defs cycle_defs ex_defs)
  have t: "total_cost now0 (cost_data_tbl db0) aws_compute = Inr (Some 620)"
    by (simp add: ex_db_defs ex_defs eval_defs)
  have a: "amount aws_compute < 620" by (simp add: aws_compute_def)
  from repeated_cycles_duplicate_alerts [OF run m t a, of cfg_slack world0 "Suc (Suc 0)"]
  obtain new where
    r: "run_cycles cfg_slack world0 (replicate (Suc (Suc 0)) now0) db0 =
          (db0\<lparr>budget_alerts_tbl := budget_alerts_tbl db0 @ new\<rparr>,
           concat (replicate (Suc (Suc 0))
             (concat (map (\<lambda>a. snd (send_email cfg_slack Sent a None) @
                                snd (send_slack_notification cfg_slack (Status 200) a None))
                      [?a1, ?a2]))))"
    and l: "length new = Suc (Suc 0) * length [?a1, ?a2]"
    by blast
  from r l have len: "length (budget_alerts_tbl
      (fst (run_cycles cfg_slack world0 (replicate (Suc (Suc 0)) now0) db0))) = 4"
    by (simp add: db0_def)
  from r have evs: "length (snd (run_cycles cfg_slack world0 (replicate (Suc (Suc 0)) now0) db0)) = 4"
    by (simp add: send_email_def send_slack_notification_def cfg_slack_def truthy_def Let_def)
  have rows: "map (\<lambda>r. (ba_id r, ba_budget_id r, ba_actual_cost r, ba_notified r))
         (budget_alerts_tbl (fst (run_cycles cfg_slack world0 (replicate (Suc (Suc 0)) now0) db0))) =
       [(1, 1, 620, True), (2, 3, 1250, True), (3, 1, 620, True), (4, 3, 1250, True)]"
    by (simp add: ex_db_defs cycle_defs ex_defs eval_defs truthy_def)
  from m t a len rows evs show ?thesis by blast
qed

end
